theory Spec2Isabelle
  imports Main "HOL-Library.Sublist"
begin

section \<open>The build script \<^verbatim>\<open>setup.py\<close>\<close>

text \<open>
  The repository holds one file, \<^verbatim>\<open>src/setup.py\<close>:
  \<^verbatim>\<open>
  1  from distutils.core import setup
  2  from Cython.Build import cythonize
  3  # import numpy
  4
  5  setup(
  6          ext_modules=cythonize("cLev.pyx")
  7          # include_dirs=[numpy.get_include()] # needed for np support
  8  )
  \<close>
  Lines 3 and 7 are comments. What is left is two \<^verbatim>\<open>from ... import\<close> statements and
  one expression statement: a call of \<^verbatim>\<open>setup\<close> with the single keyword argument
  \<^verbatim>\<open>ext_modules\<close>, whose value is the result of calling \<^verbatim>\<open>cythonize\<close> on the string
  literal \<^verbatim>\<open>"cLev.pyx"\<close>.

  Everything the script does, it does through the Python run time: it asks it to import a
  name from a module, and it asks it to call an object. Both can raise, and both can change
  the world (the file system, \<^verbatim>\<open>sys.modules\<close>, \<^verbatim>\<open>sys.argv\<close>). The code of
  \<^verbatim>\<open>distutils\<close> and of \<^verbatim>\<open>Cython\<close> is not part of the repository, so the run time is
  a parameter of the model: a \<open>host\<close>, over any type of worlds \<open>'s\<close>, of opaque objects
  \<open>'o\<close> and of exceptions \<open>'e\<close>. Every theorem below holds for every host.
\<close>

subsection \<open>Values, the host and the log of a run\<close>

text \<open>
  An argument the script passes is a string literal of its own text, or an object the
  host handed out before (a function, a list of extension modules). Objects are opaque:
  the script can only pass them on or call them.
\<close>

datatype 'o pyval = PyStr string | PyObj 'o

text \<open>
  \<open>import_from h m n w\<close> is \<^verbatim>\<open>from m import n\<close> in world \<open>w\<close>; \<open>call h f args kwargs w\<close>
  is the call \<^verbatim>\<open>f(*args, **kwargs)\<close>. Each returns the exception raised (\<open>Inl\<close>) or the
  value (\<open>Inr\<close>), and the world it leaves. Keyword arguments are an association list, in
  the order the call site writes them.
\<close>

record ('s, 'o, 'e) host =
  import_from :: "string \<Rightarrow> string \<Rightarrow> 's \<Rightarrow> ('e + 'o) \<times> 's"
  call :: "'o \<Rightarrow> 'o pyval list \<Rightarrow> (string \<times> 'o pyval) list \<Rightarrow> 's \<Rightarrow> ('e + 'o) \<times> 's"

text \<open>
  An event is one request of the script to the host. A run keeps a log of its events, each
  with the outcome the host gave, beside the world.
\<close>

datatype 'o event =
    ImportFrom string string
  | Call 'o "'o pyval list" "(string \<times> 'o pyval) list"

type_synonym ('o, 'e) entry = "'o event \<times> ('e + 'o)"

record ('s, 'o, 'e) pstate =
  world :: 's
  trace :: "('o, 'e) entry list"

fun perform :: "('s, 'o, 'e) host \<Rightarrow> 'o event \<Rightarrow> 's \<Rightarrow> ('e + 'o) \<times> 's" where
  "perform h (ImportFrom m n) w = import_from h m n w"
| "perform h (Call f args kwargs) w = call h f args kwargs w"

subsection \<open>Statements in sequence\<close>

text \<open>
  A piece of Python is a function from the state before to an outcome and the state after.
  An exception ends the sequence: \<open>py_bind\<close> runs what follows only after a value.
\<close>

type_synonym ('s, 'o, 'e, 'a) py =
  "('s, 'o, 'e) pstate \<Rightarrow> ('e + 'a) \<times> ('s, 'o, 'e) pstate"

definition py_return :: "'a \<Rightarrow> ('s, 'o, 'e, 'a) py" where
  "py_return x = (\<lambda>st. (Inr x, st))"

definition py_bind ::
  "('s, 'o, 'e, 'a) py \<Rightarrow> ('a \<Rightarrow> ('s, 'o, 'e, 'b) py) \<Rightarrow> ('s, 'o, 'e, 'b) py" where
  "py_bind m f = (\<lambda>st. case m st of
       (Inl e, st') \<Rightarrow> (Inl e, st')
     | (Inr x, st') \<Rightarrow> f x st')"

definition interact :: "('s, 'o, 'e) host \<Rightarrow> 'o event \<Rightarrow> ('s, 'o, 'e, 'o) py" where
  "interact h ev = (\<lambda>st. case perform h ev (world st) of
       (r, w') \<Rightarrow> (r, \<lparr>world = w', trace = trace st @ [(ev, r)]\<rparr>))"

definition py_import_from ::
  "('s, 'o, 'e) host \<Rightarrow> string \<Rightarrow> string \<Rightarrow> ('s, 'o, 'e, 'o) py" where
  "py_import_from h m n = interact h (ImportFrom m n)"

definition py_call ::
  "('s, 'o, 'e) host \<Rightarrow> 'o \<Rightarrow> 'o pyval list \<Rightarrow> (string \<times> 'o pyval) list
     \<Rightarrow> ('s, 'o, 'e, 'o) py" where
  "py_call h f args kwargs = interact h (Call f args kwargs)"

subsection \<open>The script\<close>

text \<open>
  The module body, statement by statement. The names \<^verbatim>\<open>setup\<close> and \<^verbatim>\<open>cythonize\<close>
  that the imports bind are the bound variables of the same names. \<open>dunder_name\<close> is the
  module global \<^verbatim>\<open>__name__\<close>, which the interpreter sets before the body runs; the
  body has no \<^verbatim>\<open>if __name__ == "__main__":\<close> and never reads it. The value of the
  expression statement is dropped.
\<close>

definition setup_py :: "('s, 'o, 'e) host \<Rightarrow> string \<Rightarrow> ('s, 'o, 'e, unit) py" where
  "setup_py h dunder_name =
     py_bind (py_import_from h ''distutils.core'' ''setup'') (\<lambda>setup.
     py_bind (py_import_from h ''Cython.Build'' ''cythonize'') (\<lambda>cythonize.
     py_bind (py_call h cythonize [PyStr ''cLev.pyx''] []) (\<lambda>ext_modules.
     py_bind (py_call h setup [] [(''ext_modules'', PyObj ext_modules)]) (\<lambda>_.
     py_return ()))))"

text \<open>
  The two ways the interpreter executes the file: \<^verbatim>\<open>python setup.py ...\<close> runs the body
  with \<^verbatim>\<open>__name__ == "__main__"\<close>; \<^verbatim>\<open>import setup\<close> (under whatever name the file is
  found) runs the same body with \<^verbatim>\<open>__name__\<close> the module's name. Either starts from
  an empty log.
\<close>

datatype mode = RunAsScript | ImportedAs string

fun name_of_mode :: "mode \<Rightarrow> string" where
  "name_of_mode RunAsScript = ''__main__''"
| "name_of_mode (ImportedAs n) = n"

definition exec_module ::
  "('s, 'o, 'e) host \<Rightarrow> mode \<Rightarrow> 's \<Rightarrow> ('e + unit) \<times> ('s, 'o, 'e) pstate" where
  "exec_module h how w = setup_py h (name_of_mode how) \<lparr>world = w, trace = []\<rparr>"

subsection \<open>Reading a log\<close>

text \<open>
  \<open>replay\<close> performs the events of a log on the host again, from a given world, and
  compares each outcome with the logged one. It returns the world reached, or \<open>None\<close>
  at the first outcome that differs.
\<close>

fun replay :: "('s, 'o, 'e) host \<Rightarrow> 's \<Rightarrow> ('o, 'e) entry list \<Rightarrow> 's option" where
  "replay h w [] = Some w"
| "replay h w ((ev, r) # rest) =
     (case perform h ev w of (r', w') \<Rightarrow> if r' = r then replay h w' rest else None)"

text \<open>
  What an event owes to the text of the script alone: the module and name of an import,
  the string literals among the arguments of a call and the keywords. Objects are the
  host's, and are erased.
\<close>

datatype arg_shape = Literal string | Host_object

fun shape :: "'o pyval \<Rightarrow> arg_shape" where
  "shape (PyStr s) = Literal s"
| "shape (PyObj x) = Host_object"

datatype request =
    Import_request string string
  | Call_request "arg_shape list" "(string \<times> arg_shape) list"

fun request_of :: "'o event \<Rightarrow> request" where
  "request_of (ImportFrom m n) = Import_request m n"
| "request_of (Call f args kwargs) =
     Call_request (map shape args) (map (\<lambda>(k, v). (k, shape v)) kwargs)"

definition requests :: "('e + 'a) \<times> ('s, 'o, 'e) pstate \<Rightarrow> request list" where
  "requests run = map (\<lambda>(ev, r). request_of ev) (trace (snd run))"

text \<open>
  The requests the text of the script makes, top to bottom: lines 1 and 2, then the inner
  call of line 6, then the outer call of lines 5 to 8.
\<close>

definition script_requests :: "request list" where
  "script_requests =
     [Import_request ''distutils.core'' ''setup'',
      Import_request ''Cython.Build'' ''cythonize'',
      Call_request [Literal ''cLev.pyx''] [],
      Call_request [] [(''ext_modules'', Host_object)]]"

subsection \<open>An example host\<close>

text \<open>
  A small host to run the script on, so that the theorems can be instantiated. It is an
  example, not a model of \<^verbatim>\<open>distutils\<close> or \<^verbatim>\<open>Cython\<close>: a world is the argument
  vector and the names of the files on disk, an object is its dotted name and an exception
  its message. A module can be imported when it is in the list \<open>installed\<close>;
  \<^verbatim>\<open>cythonize\<close> wants one file name and the file on disk, and writes a C file;
  \<^verbatim>\<open>setup\<close> writes a shared object. Neither looks at the argument vector.
\<close>

record toy_world =
  argv :: "string list"
  files :: "string list"

definition toy_import_from ::
  "string list \<Rightarrow> string \<Rightarrow> string \<Rightarrow> toy_world \<Rightarrow> (string + string) \<times> toy_world" where
  "toy_import_from installed m n w =
     (if m \<in> set installed then (Inr (m @ ''.'' @ n), w)
      else (Inl (''ModuleNotFoundError: '' @ m), w))"

definition toy_call ::
  "string \<Rightarrow> string pyval list \<Rightarrow> (string \<times> string pyval) list \<Rightarrow> toy_world
     \<Rightarrow> (string + string) \<times> toy_world" where
  "toy_call f args kwargs w =
     (if f = ''Cython.Build.cythonize'' then
        (case args of
           [PyStr src] \<Rightarrow>
             if src \<in> set (files w)
             then (Inr ''extensions'', w\<lparr>files := (src @ ''.c'') # files w\<rparr>)
             else (Inl (''ValueError: '' @ src), w)
         | _ \<Rightarrow> (Inl ''TypeError'', w))
      else if f = ''distutils.core.setup'' then
        (Inr ''distribution'', w\<lparr>files := ''cLev.so'' # files w\<rparr>)
      else (Inl ''TypeError'', w))"

definition toy_host :: "string list \<Rightarrow> (toy_world, string, string) host" where
  "toy_host installed = \<lparr>import_from = toy_import_from installed, call = toy_call\<rparr>"

text \<open>The same imports on a read-only system: every call raises and nothing changes.\<close>

definition toy_readonly_host :: "string list \<Rightarrow> (toy_world, string, string) host" where
  "toy_readonly_host installed =
     \<lparr>import_from = toy_import_from installed,
      call = (\<lambda>f args kwargs w. (Inl ''PermissionError'', w))\<rparr>"



definition toy_disk :: toy_world where
  "toy_disk = \<lparr>argv = [''setup.py'', ''build_ext''], files = [''setup.py'', ''cLev.pyx'']\<rparr>"

section \<open>What a run looks like\<close>

text \<open>
  The four requests, in the order of the text, each made in the world the one before
  left; the first exception ends the run and is its result.
\<close>

lemma exec_module_unfold:
  "exec_module h how w =
    (case import_from h ''distutils.core'' ''setup'' w of
      (Inl e, w1) \<Rightarrow>
        (Inl e, \<lparr>world = w1, trace = [(ImportFrom ''distutils.core'' ''setup'', Inl e)]\<rparr>)
    | (Inr setup, w1) \<Rightarrow>
    (case import_from h ''Cython.Build'' ''cythonize'' w1 of
      (Inl e, w2) \<Rightarrow>
        (Inl e, \<lparr>world = w2, trace =
          [(ImportFrom ''distutils.core'' ''setup'', Inr setup),
           (ImportFrom ''Cython.Build'' ''cythonize'', Inl e)]\<rparr>)
    | (Inr cythonize, w2) \<Rightarrow>
    (case call h cythonize [PyStr ''cLev.pyx''] [] w2 of
      (Inl e, w3) \<Rightarrow>
        (Inl e, \<lparr>world = w3, trace =
          [(ImportFrom ''distutils.core'' ''setup'', Inr setup),
           (ImportFrom ''Cython.Build'' ''cythonize'', Inr cythonize),
           (Call cythonize [PyStr ''cLev.pyx''] [], Inl e)]\<rparr>)
    | (Inr exts, w3) \<Rightarrow>
    (case call h setup [] [(''ext_modules'', PyObj exts)] w3 of
      (Inl e, w4) \<Rightarrow>
        (Inl e, \<lparr>world = w4, trace =
          [(ImportFrom ''distutils.core'' ''setup'', Inr setup),
           (ImportFrom ''Cython.Build'' ''cythonize'', Inr cythonize),
           (Call cythonize [PyStr ''cLev.pyx''] [], Inr exts),
           (Call setup [] [(''ext_modules'', PyObj exts)], Inl e)]\<rparr>)
    | (Inr dist, w4) \<Rightarrow>
        (Inr (), \<lparr>world = w4, trace =
          [(ImportFrom ''distutils.core'' ''setup'', Inr setup),
           (ImportFrom ''Cython.Build'' ''cythonize'', Inr cythonize),
           (Call cythonize [PyStr ''cLev.pyx''] [], Inr exts),
           (Call setup [] [(''ext_modules'', PyObj exts)], Inr dist)]\<rparr>)))))"
  by (simp add: exec_module_def setup_py_def py_bind_def py_return_def py_import_from_def
      py_call_def interact_def split: prod.splits sum.splits)

text \<open>The same as a case distinction on what the host answers.\<close>

lemma exec_module_cases [case_names import_setup_raises import_cythonize_raises
    cythonize_raises setup_raises setup_returns]:
  obtains
    e w1 where
      "import_from h ''distutils.core'' ''setup'' w = (Inl e, w1)"
  | setup_f w1 e w2 where
      "import_from h ''distutils.core'' ''setup'' w = (Inr setup_f, w1)"
      and "import_from h ''Cython.Build'' ''cythonize'' w1 = (Inl e, w2)"
  | setup_f w1 cythonize_f w2 e w3 where
      "import_from h ''distutils.core'' ''setup'' w = (Inr setup_f, w1)"
      and "import_from h ''Cython.Build'' ''cythonize'' w1 = (Inr cythonize_f, w2)"
      and "call h cythonize_f [PyStr ''cLev.pyx''] [] w2 = (Inl e, w3)"
  | setup_f w1 cythonize_f w2 exts w3 e w4 where
      "import_from h ''distutils.core'' ''setup'' w = (Inr setup_f, w1)"
      and "import_from h ''Cython.Build'' ''cythonize'' w1 = (Inr cythonize_f, w2)"
      and "call h cythonize_f [PyStr ''cLev.pyx''] [] w2 = (Inr exts, w3)"
      and "call h setup_f [] [(''ext_modules'', PyObj exts)] w3 = (Inl e, w4)"
  | setup_f w1 cythonize_f w2 exts w3 dist w4 where
      "import_from h ''distutils.core'' ''setup'' w = (Inr setup_f, w1)"
      and "import_from h ''Cython.Build'' ''cythonize'' w1 = (Inr cythonize_f, w2)"
      and "call h cythonize_f [PyStr ''cLev.pyx''] [] w2 = (Inr exts, w3)"
      and "call h setup_f [] [(''ext_modules'', PyObj exts)] w3 = (Inr dist, w4)"
proof -
  obtain r1 w1 where 1: "import_from h ''distutils.core'' ''setup'' w = (r1, w1)"
    by (metis surj_pair)
  obtain r2 w2 where 2: "import_from h ''Cython.Build'' ''cythonize'' w1 = (r2, w2)"
    by (metis surj_pair)
  show thesis
  proof (cases r1)
    case (Inl e)
    with 1 that(1) show thesis by blast
  next
    case r1: (Inr setup_f)
    show thesis
    proof (cases r2)
      case (Inl e)
      with 1 2 r1 that(2) show thesis by blast
    next
      case r2: (Inr cythonize_f)
      obtain r3 w3 where 3: "call h cythonize_f [PyStr ''cLev.pyx''] [] w2 = (r3, w3)"
        by (metis surj_pair)
      show thesis
      proof (cases r3)
        case (Inl e)
        with 1 2 3 r1 r2 that(3) show thesis by blast
      next
        case r3: (Inr exts)
        obtain r4 w4 where 4: "call h setup_f [] [(''ext_modules'', PyObj exts)] w3 = (r4, w4)"
          by (metis surj_pair)
        show thesis
        proof (cases r4)
          case (Inl e)
          with 1 2 3 4 r1 r2 r3 that(4) show thesis by blast
        next
          case (Inr dist)
          with 1 2 3 4 r1 r2 r3 that(5) show thesis by blast
        qed
      qed
    qed
  qed
qed





lemma run_replays:
  "replay h w (trace (snd (exec_module h how w))) = Some (world (snd (exec_module h how w)))"
  by (cases rule: exec_module_cases [where h = h and w = w])
    (simp_all add: exec_module_unfold)


lemma calls_come_from_imports:
  assumes "(Call f args kwargs, r) \<in> set (trace (snd (exec_module h how w)))"
  shows "(args = [PyStr ''cLev.pyx''] \<and> kwargs = []
          \<and> (ImportFrom ''Cython.Build'' ''cythonize'', Inr f)
              \<in> set (trace (snd (exec_module h how w))))
       \<or> (args = []
          \<and> (ImportFrom ''distutils.core'' ''setup'', Inr f)
              \<in> set (trace (snd (exec_module h how w)))
          \<and> (\<exists>cythonize exts. kwargs = [(''ext_modules'', PyObj exts)]
                \<and> (Call cythonize [PyStr ''cLev.pyx''] [], Inr exts)
                    \<in> set (trace (snd (exec_module h how w)))))"
  using assms
  by (cases rule: exec_module_cases [where h = h and w = w])
    (auto simp add: exec_module_unfold)

lemma literal_passed_once:
  assumes "import_from h ''distutils.core'' ''setup'' w = (Inr setup, w1)"
    and "import_from h ''Cython.Build'' ''cythonize'' w1 = (Inr cythonize, w2)"
  shows "filter (\<lambda>ev. case ev of ImportFrom m n \<Rightarrow> False | Call f args kwargs \<Rightarrow> args \<noteq> [])
           (map fst (trace (snd (exec_module h how w))))
         = [Call cythonize [PyStr ''cLev.pyx''] []]"
  using assms
  by (cases rule: exec_module_cases [where h = h and w = w])
    (auto simp add: exec_module_unfold)


text \<open>A run stops short of the four requests only at a request that raised.\<close>

lemma run_complete_or_raised:
  "trace (snd (exec_module h how w)) \<noteq> []
   \<and> (requests (exec_module h how w) = script_requests
        \<or> isl (snd (last (trace (snd (exec_module h how w))))))"
  by (cases rule: exec_module_cases [where h = h and w = w])
    (simp_all add: exec_module_unfold requests_def script_requests_def)

text \<open>The body does not read \<^verbatim>\<open>__name__\<close>.\<close>

lemma mode_irrelevant: "exec_module h how1 w = exec_module h how2 w"
  by (simp add: exec_module_def setup_py_def)

text \<open>The requests of a run are an initial part of the script's list.\<close>

lemma requests_prefix:
  "prefix (requests (exec_module h how w)) script_requests"
  by (auto simp add: requests_def script_requests_def exec_module_unfold prefix_Cons
      split: prod.splits sum.splits)

text \<open>
  The script changes the world only through the host: on a host whose operations leave the
  world alone, so does the run.
\<close>

lemma pure_host_world:
  assumes "\<forall>ev v. snd (perform h ev v) = v"
  shows "world (snd (exec_module h how w)) = w"
proof -
  have i: "v' = v" if "import_from h m n v = (r, v')" for m n v r v'
    using assms [rule_format, of "ImportFrom m n" v] that by simp
  have c: "v' = v" if "call h f a k v = (r, v')" for f a k v r v'
    using assms [rule_format, of "Call f a k" v] that by simp
  show ?thesis
  proof (cases rule: exec_module_cases [where h = h and w = w])
    case (import_setup_raises e w1)
    from this i [OF this(1)] show ?thesis
      by (simp add: exec_module_unfold)
  next
    case (import_cythonize_raises setup_f w1 e w2)
    from this i [OF this(1)] i [OF this(2)] show ?thesis
      by (simp add: exec_module_unfold)
  next
    case (cythonize_raises setup_f w1 cythonize_f w2 e w3)
    from this i [OF this(1)] i [OF this(2)] c [OF this(3)] show ?thesis
      by (simp add: exec_module_unfold)
  next
    case (setup_raises setup_f w1 cythonize_f w2 exts w3 e w4)
    from this i [OF this(1)] i [OF this(2)] c [OF this(3)] c [OF this(4)] show ?thesis
      by (simp add: exec_module_unfold)
  next
    case (setup_returns setup_f w1 cythonize_f w2 exts w3 dist w4)
    from this i [OF this(1)] i [OF this(2)] c [OF this(3)] c [OF this(4)] show ?thesis
      by (simp add: exec_module_unfold)
  qed
qed

text \<open>
  The script reads the world only through the host: a change \<open>g\<close> of the world that
  the host's operations do not notice (they answer the same and carry the change along)
  goes unnoticed by the run.
\<close>

lemma commuting_host_run:
  assumes "\<forall>ev v. perform h ev (g v) = (fst (perform h ev v), g (snd (perform h ev v)))"
  shows "exec_module h how (g w) =
          (fst (exec_module h how w),
           \<lparr>world = g (world (snd (exec_module h how w))),
            trace = trace (snd (exec_module h how w))\<rparr>)"
proof -
  have i: "import_from h m n (g v) = (r, g v')" if "import_from h m n v = (r, v')"
    for m n v r v'
    using assms [rule_format, of "ImportFrom m n" v] that by simp
  have c: "call h f a k (g v) = (r, g v')" if "call h f a k v = (r, v')" for f a k v r v'
    using assms [rule_format, of "Call f a k" v] that by simp
  show ?thesis
  proof (cases rule: exec_module_cases [where h = h and w = w])
    case (import_setup_raises e w1)
    from this i [OF this(1)] show ?thesis
      by (simp add: exec_module_unfold)
  next
    case (import_cythonize_raises setup_f w1 e w2)
    from this i [OF this(1)] i [OF this(2)] show ?thesis
      by (simp add: exec_module_unfold)
  next
    case (cythonize_raises setup_f w1 cythonize_f w2 e w3)
    from this i [OF this(1)] i [OF this(2)] c [OF this(3)] show ?thesis
      by (simp add: exec_module_unfold)
  next
    case (setup_raises setup_f w1 cythonize_f w2 exts w3 e w4)
    from this i [OF this(1)] i [OF this(2)] c [OF this(3)] c [OF this(4)] show ?thesis
      by (simp add: exec_module_unfold)
  next
    case (setup_returns setup_f w1 cythonize_f w2 exts w3 dist w4)
    from this i [OF this(1)] i [OF this(2)] c [OF this(3)] c [OF this(4)] show ?thesis
      by (simp add: exec_module_unfold)
  qed
qed


text \<open>
  Four runs on the example hosts: a build, a run without Cython, a run without the source,
  a run on the read-only system.
\<close>



lemma toy_run_builds:
  "exec_module (toy_host [''distutils.core'', ''Cython.Build'']) RunAsScript toy_disk =
     (Inr (),
      \<lparr>world = \<lparr>argv = [''setup.py'', ''build_ext''],
                 files = [''cLev.so'', ''cLev.pyx.c'', ''setup.py'', ''cLev.pyx'']\<rparr>,
       trace =
        [(ImportFrom ''distutils.core'' ''setup'', Inr ''distutils.core.setup''),
         (ImportFrom ''Cython.Build'' ''cythonize'', Inr ''Cython.Build.cythonize''),
         (Call ''Cython.Build.cythonize'' [PyStr ''cLev.pyx''] [], Inr ''extensions''),
         (Call ''distutils.core.setup'' [] [(''ext_modules'', PyObj ''extensions'')],
          Inr ''distribution'')]\<rparr>)"
  by (simp add: exec_module_unfold toy_host_def toy_import_from_def toy_call_def toy_disk_def)

lemma toy_run_without_cython:
  "exec_module (toy_host [''distutils.core'']) RunAsScript toy_disk =
     (Inl ''ModuleNotFoundError: Cython.Build'',
      \<lparr>world = toy_disk,
       trace =
        [(ImportFrom ''distutils.core'' ''setup'', Inr ''distutils.core.setup''),
         (ImportFrom ''Cython.Build'' ''cythonize'',
          Inl ''ModuleNotFoundError: Cython.Build'')]\<rparr>)"
  by (simp add: exec_module_unfold toy_host_def toy_import_from_def toy_call_def)


lemma toy_run_readonly:
  "exec_module (toy_readonly_host [''distutils.core'', ''Cython.Build''])
       (ImportedAs ''setup'') toy_disk =
     (Inl ''PermissionError'',
      \<lparr>world = toy_disk,
       trace =
        [(ImportFrom ''distutils.core'' ''setup'', Inr ''distutils.core.setup''),
         (ImportFrom ''Cython.Build'' ''cythonize'', Inr ''Cython.Build.cythonize''),
         (Call ''Cython.Build.cythonize'' [PyStr ''cLev.pyx''] [], Inl ''PermissionError'')]\<rparr>)"
  by (simp add: exec_module_unfold toy_readonly_host_def toy_import_from_def)


section \<open>The claims\<close>

subsection \<open>C1: the one call of setup\<close>




subsection \<open>C2: no include directories, no numpy\<close>

text \<open>
  Claim C2. In every execution the optional include-directory configuration is inactive:
  what is passed to \<^verbatim>\<open>setup\<close> has no \<^verbatim>\<open>include_dirs\<close> entry and the numeric
  library is never loaded.

  Lines 3 and 7 of the file are comments, so the body has no statement for them. For every
  host, way of executing and world, no import of the run names \<^verbatim>\<open>numpy\<close> or a module
  below it, and no call of the run has the keyword \<^verbatim>\<open>include_dirs\<close>.
\<close>

theorem include_dirs_inactive:
  "\<forall>(ev, r) \<in> set (trace (snd (exec_module h how w))).
     (case ev of
        ImportFrom m n \<Rightarrow> \<not> prefix ''numpy'' m
      | Call f args kwargs \<Rightarrow> ''include_dirs'' \<notin> set (map fst kwargs))"
  by (auto simp add: exec_module_unfold prefix_Cons split: prod.splits sum.splits)

theorem include_dirs_inactive_witness:
  "(Call ''distutils.core.setup'' [] [(''ext_modules'', PyObj ''extensions'')],
      Inr ''distribution'')
      \<in> set (trace (snd (exec_module (toy_host [''distutils.core'', ''Cython.Build''])
                               RunAsScript toy_disk)))
   \<and> ''include_dirs'' \<notin> set (map fst [(''ext_modules'', PyObj ''extensions'' :: string pyval)])
   \<and> (ImportFrom ''Cython.Build'' ''cythonize'', Inr ''Cython.Build.cythonize'')
      \<in> set (trace (snd (exec_module (toy_host [''distutils.core'', ''Cython.Build''])
                               RunAsScript toy_disk)))
   \<and> \<not> prefix ''numpy'' ''Cython.Build''"
proof -
  let ?run = "exec_module (toy_host [''distutils.core'', ''Cython.Build'']) RunAsScript toy_disk"
  note all = include_dirs_inactive
    [of "toy_host [''distutils.core'', ''Cython.Build'']" RunAsScript toy_disk]
  have c: "(Call ''distutils.core.setup'' [] [(''ext_modules'', PyObj ''extensions'')],
      Inr ''distribution'') \<in> set (trace (snd ?run))"
    by (simp add: toy_run_builds)
  have i: "(ImportFrom ''Cython.Build'' ''cythonize'', Inr ''Cython.Build.cythonize'')
      \<in> set (trace (snd ?run))"
    by (simp add: toy_run_builds)
  from bspec [OF all c]
  have c': "''include_dirs'' \<notin> set (map fst [(''ext_modules'', PyObj ''extensions'' :: string pyval)])"
    by simp
  from bspec [OF all i] have i': "\<not> prefix ''numpy'' ''Cython.Build''"
    by simp
  from c c' i i' show ?thesis
    by blast
qed

subsection \<open>C3: failures pass through\<close>



subsection \<open>C4: what the toolchain does with the file\<close>

text \<open>
  Claim C4 (with \<^verbatim>\<open>cLev.pyx\<close> on disk the build produces an artifact, without it the
  build fails) is about what \<^verbatim>\<open>cythonize\<close> and \<^verbatim>\<open>setup\<close> do with the file
  system. Their code is not in the repository, and here they are the host, about which
  nothing is assumed; the script passes the name on (C1) and the failure back (C3). No
  theorem is stated for C4.
\<close>

subsection \<open>C5: the same requests in every run\<close>

text \<open>
  Claim C5. The script is deterministic straight-line code: any two executions pass the
  same arguments (the constant \<^verbatim>\<open>"cLev.pyx"\<close>) to the toolchain in a single call, with
  no branching, no retry and no state read or written.

  Not any two: a run that ends at an import passes nothing, while another passes
  \<^verbatim>\<open>"cLev.pyx"\<close> (the two runs after the theorem). What holds, for any two
  runs, on hosts of any types, from any worlds, executed either way:
  \<^item> of what the script itself contributes to its requests (module and name, literals,
    keywords), one run's sequence is an initial part of the other's, each is an initial
    part of the one list \<open>script_requests\<close>, and no request is made twice;
  \<^item> there is no branch: a run makes all four requests unless its last one raised;
  \<^item> a run in which both imports return calls with positional arguments exactly once, and
    that call is the object imported as \<^verbatim>\<open>cythonize\<close> on the literal
    \<^verbatim>\<open>"cLev.pyx"\<close> alone;
  \<^item> every call of a run is either that one, or the object imported as \<^verbatim>\<open>setup\<close> with
    the one keyword \<^verbatim>\<open>ext_modules\<close> bound to what that one returned;
  \<^item> on one host from one world, the run is the same whichever way the file is executed;
  \<^item> the world at the end is the one the requests left, and on a host whose operations
    leave the world alone the run leaves it alone.
\<close>

theorem runs_ask_the_same:
  fixes h1 :: "('s1, 'o1, 'e1) host" and h2 :: "('s2, 'o2, 'e2) host"
  shows "(prefix (requests (exec_module h1 how1 w1)) (requests (exec_module h2 how2 w2))
          \<or> prefix (requests (exec_module h2 how2 w2)) (requests (exec_module h1 how1 w1)))
       \<and> prefix (requests (exec_module h1 how1 w1)) script_requests
       \<and> distinct (requests (exec_module h1 how1 w1))
       \<and> trace (snd (exec_module h1 how1 w1)) \<noteq> []
       \<and> (requests (exec_module h1 how1 w1) = script_requests
            \<or> isl (snd (last (trace (snd (exec_module h1 how1 w1))))))
       \<and> (\<forall>setup v1 cythonize v2.
            import_from h1 ''distutils.core'' ''setup'' w1 = (Inr setup, v1) \<longrightarrow>
            import_from h1 ''Cython.Build'' ''cythonize'' v1 = (Inr cythonize, v2) \<longrightarrow>
            filter (\<lambda>ev. case ev of ImportFrom m n \<Rightarrow> False | Call f args kwargs \<Rightarrow> args \<noteq> [])
              (map fst (trace (snd (exec_module h1 how1 w1))))
            = [Call cythonize [PyStr ''cLev.pyx''] []])
       \<and> (\<forall>f args kwargs r.
            (Call f args kwargs, r) \<in> set (trace (snd (exec_module h1 how1 w1))) \<longrightarrow>
              (args = [PyStr ''cLev.pyx''] \<and> kwargs = []
                \<and> (ImportFrom ''Cython.Build'' ''cythonize'', Inr f)
                    \<in> set (trace (snd (exec_module h1 how1 w1))))
            \<or> (args = []
                \<and> (ImportFrom ''distutils.core'' ''setup'', Inr f)
                    \<in> set (trace (snd (exec_module h1 how1 w1)))
                \<and> (\<exists>cythonize exts. kwargs = [(''ext_modules'', PyObj exts)]
                      \<and> (Call cythonize [PyStr ''cLev.pyx''] [], Inr exts)
                          \<in> set (trace (snd (exec_module h1 how1 w1))))))
       \<and> exec_module h1 how1 w1 = exec_module h1 how2 w1
       \<and> replay h1 w1 (trace (snd (exec_module h1 how1 w1)))
           = Some (world (snd (exec_module h1 how1 w1)))
       \<and> ((\<forall>ev v. snd (perform h1 ev v) = v) \<longrightarrow> world (snd (exec_module h1 how1 w1)) = w1)"
proof -
  have p1: "prefix (requests (exec_module h1 how1 w1)) script_requests"
    by (rule requests_prefix)
  have p2: "prefix (requests (exec_module h2 how2 w2)) script_requests"
    by (rule requests_prefix)
  have "distinct script_requests"
    by (simp add: script_requests_def)
  with p1 have d: "distinct (requests (exec_module h1 how1 w1))"
    by (metis distinct_append prefix_def)
  from p1 p2 have c: "prefix (requests (exec_module h1 how1 w1)) (requests (exec_module h2 how2 w2))
          \<or> prefix (requests (exec_module h2 how2 w2)) (requests (exec_module h1 how1 w1))"
    by (rule prefix_same_cases)
  note rest = run_complete_or_raised [of h1 how1 w1]
    literal_passed_once [where h = h1 and how = how1 and w = w1]
    calls_come_from_imports [where h = h1 and how = how1 and w = w1]
    mode_irrelevant [of h1 how1 w1 how2] run_replays [of h1 w1 how1]
    pure_host_world [of h1 how1 w1]
  show ?thesis
    apply (intro conjI allI impI)
              apply (rule c)
             apply (rule p1)
            apply (rule d)
           apply (simp add: rest(1))
          apply (rule rest(1) [THEN conjunct2])
         apply (erule (1) rest(2))
        apply (erule rest(3))
       apply (rule rest(4))
      apply (rule rest(5))
     apply (erule rest(6))
    done
qed

theorem runs_ask_the_same_witness:
  "import_from (toy_readonly_host [''distutils.core'', ''Cython.Build'']) ''distutils.core'' ''setup''
       toy_disk = (Inr ''distutils.core.setup'', toy_disk)
   \<and> import_from (toy_readonly_host [''distutils.core'', ''Cython.Build'']) ''Cython.Build''
       ''cythonize'' toy_disk = (Inr ''Cython.Build.cythonize'', toy_disk)
   \<and> filter (\<lambda>ev. case ev of ImportFrom m n \<Rightarrow> False | Call f args kwargs \<Rightarrow> args \<noteq> [])
        (map fst (trace (snd (exec_module (toy_readonly_host [''distutils.core'', ''Cython.Build''])
                                (ImportedAs ''setup'') toy_disk))))
       = [Call ''Cython.Build.cythonize'' [PyStr ''cLev.pyx''] []]
   \<and> (Call ''Cython.Build.cythonize'' [PyStr ''cLev.pyx''] [], Inl ''PermissionError'')
       \<in> set (trace (snd (exec_module (toy_readonly_host [''distutils.core'', ''Cython.Build''])
                                (ImportedAs ''setup'') toy_disk)))
   \<and> (ImportFrom ''Cython.Build'' ''cythonize'', Inr ''Cython.Build.cythonize'')
       \<in> set (trace (snd (exec_module (toy_readonly_host [''distutils.core'', ''Cython.Build''])
                                (ImportedAs ''setup'') toy_disk)))
   \<and> (\<forall>ev v. snd (perform (toy_readonly_host [''distutils.core'', ''Cython.Build'']) ev v) = v)
   \<and> world (snd (exec_module (toy_readonly_host [''distutils.core'', ''Cython.Build''])
                    (ImportedAs ''setup'') toy_disk)) = toy_disk
   \<and> prefix (requests (exec_module (toy_readonly_host [''distutils.core'', ''Cython.Build''])
                         (ImportedAs ''setup'') toy_disk))
            (requests (exec_module (toy_host [''distutils.core'', ''Cython.Build''])
                         RunAsScript toy_disk))"
proof -
  let ?h1 = "toy_readonly_host [''distutils.core'', ''Cython.Build'']"
  let ?h2 = "toy_host [''distutils.core'', ''Cython.Build'']"
  let ?run = "exec_module ?h1 (ImportedAs ''setup'') toy_disk"
  note all = runs_ask_the_same [of ?h1 "ImportedAs ''setup''" toy_disk ?h2 RunAsScript toy_disk]
  have i1: "import_from ?h1 ''distutils.core'' ''setup'' toy_disk
      = (Inr ''distutils.core.setup'', toy_disk)"
    by (simp add: toy_readonly_host_def toy_import_from_def)
  have i2: "import_from ?h1 ''Cython.Build'' ''cythonize'' toy_disk
      = (Inr ''Cython.Build.cythonize'', toy_disk)"
    by (simp add: toy_readonly_host_def toy_import_from_def)
  from all i1 i2
  have once: "filter (\<lambda>ev. case ev of ImportFrom m n \<Rightarrow> False | Call f args kwargs \<Rightarrow> args \<noteq> [])
        (map fst (trace (snd ?run))) = [Call ''Cython.Build.cythonize'' [PyStr ''cLev.pyx''] []]"
    by blast
  have called: "(Call ''Cython.Build.cythonize'' [PyStr ''cLev.pyx''] [], Inl ''PermissionError'')
       \<in> set (trace (snd ?run))"
    by (simp add: toy_run_readonly)
  with all
  have "([PyStr ''cLev.pyx''] = [PyStr ''cLev.pyx''] \<and> ([] :: (string \<times> string pyval) list) = []
          \<and> (ImportFrom ''Cython.Build'' ''cythonize'', Inr ''Cython.Build.cythonize'')
              \<in> set (trace (snd ?run)))
       \<or> ([PyStr ''cLev.pyx''] = ([] :: string pyval list)
          \<and> (ImportFrom ''distutils.core'' ''setup'', Inr ''Cython.Build.cythonize'')
              \<in> set (trace (snd ?run))
          \<and> (\<exists>cythonize exts. [] = [(''ext_modules'', PyObj exts)]
                \<and> (Call cythonize [PyStr ''cLev.pyx''] [], Inr exts) \<in> set (trace (snd ?run))))"
    by blast
  then have imported: "(ImportFrom ''Cython.Build'' ''cythonize'', Inr ''Cython.Build.cythonize'')
       \<in> set (trace (snd ?run))"
    by simp
  have pure: "\<forall>ev v. snd (perform ?h1 ev v) = v"
  proof (intro allI)
    fix ev :: "string event" and v
    show "snd (perform ?h1 ev v) = v"
      by (cases ev) (simp_all add: toy_readonly_host_def toy_import_from_def)
  qed
  with all have same: "world (snd ?run) = toy_disk"
    by blast
  have "\<not> prefix (requests (exec_module ?h2 RunAsScript toy_disk)) (requests ?run)"
    by (simp add: requests_def toy_run_readonly toy_run_builds)
  with all have pre: "prefix (requests ?run) (requests (exec_module ?h2 RunAsScript toy_disk))"
    by blast
  from i1 i2 once called imported pure same pre show ?thesis
    by blast
qed

text \<open>
  Two executions from the same disk, with and without Cython: the first passes
  \<^verbatim>\<open>"cLev.pyx"\<close> in a call, the second makes no call.
\<close>

theorem runs_differ_without_cython:
  "requests (exec_module (toy_host [''distutils.core'', ''Cython.Build'']) RunAsScript toy_disk) =
     [Import_request ''distutils.core'' ''setup'',
      Import_request ''Cython.Build'' ''cythonize'',
      Call_request [Literal ''cLev.pyx''] [],
      Call_request [] [(''ext_modules'', Host_object)]]
   \<and> requests (exec_module (toy_host [''distutils.core'']) RunAsScript toy_disk) =
     [Import_request ''distutils.core'' ''setup'',
      Import_request ''Cython.Build'' ''cythonize'']"
  by (simp add: requests_def toy_run_builds toy_run_without_cython)

subsection \<open>C6: no command line of its own\<close>

text \<open>
  Claim C6. The file defines no command-line flags or subcommands: no argument parsing,
  flag definition or subcommand dispatch is in the script; any command-line surface comes
  from the external build helper.

  The script imports \<^verbatim>\<open>setup\<close> from \<^verbatim>\<open>distutils.core\<close> and \<^verbatim>\<open>cythonize\<close> from
  \<^verbatim>\<open>Cython.Build\<close> and nothing else (not \<^verbatim>\<open>sys\<close>, \<^verbatim>\<open>argparse\<close>,
  \<^verbatim>\<open>getopt\<close> or \<^verbatim>\<open>optparse\<close>), the only literal it passes is \<^verbatim>\<open>"cLev.pyx"\<close> and
  the only keyword \<^verbatim>\<open>ext_modules\<close> (not \<^verbatim>\<open>script_args\<close>, \<^verbatim>\<open>options\<close> or
  \<^verbatim>\<open>cmdclass\<close>, by which a distutils script would define arguments and commands).
  And if \<open>g\<close> changes the world (say, puts another \<^verbatim>\<open>sys.argv\<close>) in a way the
  host's operations do not notice, the run does not notice: same result, same log, the
  world at the end changed by \<open>g\<close>. So whatever a run owes to the command line, it owes
  to the host.
\<close>

theorem no_command_line_handling:
  "(\<forall>(ev, r) \<in> set (trace (snd (exec_module h how w))).
      (case ev of
         ImportFrom m n \<Rightarrow>
           (m, n) = (''distutils.core'', ''setup'') \<or> (m, n) = (''Cython.Build'', ''cythonize'')
       | Call f args kwargs \<Rightarrow>
           set args \<subseteq> {PyStr ''cLev.pyx''} \<and> set (map fst kwargs) \<subseteq> {''ext_modules''}))
   \<and> ((\<forall>ev v. perform h ev (g v) = (fst (perform h ev v), g (snd (perform h ev v))))
        \<longrightarrow> exec_module h how (g w) =
              (fst (exec_module h how w),
               \<lparr>world = g (world (snd (exec_module h how w))),
                trace = trace (snd (exec_module h how w))\<rparr>))"
proof -
  have "\<forall>(ev, r) \<in> set (trace (snd (exec_module h how w))).
      (case ev of
         ImportFrom m n \<Rightarrow>
           (m, n) = (''distutils.core'', ''setup'') \<or> (m, n) = (''Cython.Build'', ''cythonize'')
       | Call f args kwargs \<Rightarrow>
           set args \<subseteq> {PyStr ''cLev.pyx''} \<and> set (map fst kwargs) \<subseteq> {''ext_modules''})"
    by (auto simp add: exec_module_unfold split: prod.splits sum.splits)
  then show ?thesis
    using commuting_host_run [of h g how w] by blast
qed

theorem no_command_line_handling_witness:
  "(\<forall>ev v. perform (toy_host [''distutils.core'', ''Cython.Build'']) ev
              (v\<lparr>argv := [''setup.py'', ''--help-commands'']\<rparr>) =
            (fst (perform (toy_host [''distutils.core'', ''Cython.Build'']) ev v),
             (snd (perform (toy_host [''distutils.core'', ''Cython.Build'']) ev v))
               \<lparr>argv := [''setup.py'', ''--help-commands'']\<rparr>))
   \<and> exec_module (toy_host [''distutils.core'', ''Cython.Build'']) RunAsScript
        (toy_disk\<lparr>argv := [''setup.py'', ''--help-commands'']\<rparr>) =
       (Inr (),
        \<lparr>world = \<lparr>argv = [''setup.py'', ''--help-commands''],
                   files = [''cLev.so'', ''cLev.pyx.c'', ''setup.py'', ''cLev.pyx'']\<rparr>,
         trace = trace (snd (exec_module (toy_host [''distutils.core'', ''Cython.Build''])
                               RunAsScript toy_disk))\<rparr>)
   \<and> (ImportFrom ''distutils.core'' ''setup'', Inr ''distutils.core.setup'')
       \<in> set (trace (snd (exec_module (toy_host [''distutils.core'', ''Cython.Build''])
                               RunAsScript toy_disk)))"
proof -
  let ?h = "toy_host [''distutils.core'', ''Cython.Build'']"
  let ?g = "\<lambda>v :: toy_world. v\<lparr>argv := [''setup.py'', ''--help-commands'']\<rparr>"
  note all = no_command_line_handling [of ?h RunAsScript toy_disk ?g]
  have blind: "\<forall>ev v. perform ?h ev (?g v) = (fst (perform ?h ev v), ?g (snd (perform ?h ev v)))"
  proof (intro allI)
    fix ev :: "string event" and v
    show "perform ?h ev (?g v) = (fst (perform ?h ev v), ?g (snd (perform ?h ev v)))"
      by (cases ev)
        (simp_all add: toy_host_def toy_import_from_def toy_call_def
          split: list.splits pyval.splits)
  qed
  with all have "exec_module ?h RunAsScript (?g toy_disk) =
      (fst (exec_module ?h RunAsScript toy_disk),
       \<lparr>world = ?g (world (snd (exec_module ?h RunAsScript toy_disk))),
        trace = trace (snd (exec_module ?h RunAsScript toy_disk))\<rparr>)"
    by blast
  then have run: "exec_module ?h RunAsScript (toy_disk\<lparr>argv := [''setup.py'', ''--help-commands'']\<rparr>) =
       (Inr (),
        \<lparr>world = \<lparr>argv = [''setup.py'', ''--help-commands''],
                   files = [''cLev.so'', ''cLev.pyx.c'', ''setup.py'', ''cLev.pyx'']\<rparr>,
         trace = trace (snd (exec_module ?h RunAsScript toy_disk))\<rparr>)"
    by (simp add: toy_run_builds)
  have mem: "(ImportFrom ''distutils.core'' ''setup'', Inr ''distutils.core.setup'')
       \<in> set (trace (snd (exec_module ?h RunAsScript toy_disk)))"
    by (simp add: toy_run_builds)
  from blind run mem show ?thesis
    by blast
qed

subsection \<open>C7: one call at a time\<close>

text \<open>
  Claim C7 speaks of concurrency, shared mutable resources and cancellation. The model is
  sequential by construction: \<open>py_bind\<close> passes one state from each statement to the
  next, and a host operation is a function that has returned before the next request is
  made. That nothing runs beside the script is a property of the interpreter, which the
  model does not describe. What is sequential in the claim (one call of each helper, in a
  fixed order) is in C1 and C5. No theorem is stated for C7.
\<close>

subsection \<open>C8: no main guard\<close>



subsection \<open>C9: Cython is needed, numpy is not asked for\<close>




end
